theory Spec2Isabelle
  imports Main "HOL-Library.Sublist"
begin

section \<open>Go values and the standard-library functions the logger calls\<close>

text \<open>
  A Go \<^verbatim>\<open>string\<close> is a sequence of bytes, which is what \<^typ>\<open>string\<close> is here.
  Calling a method on a nil interface value, or dereferencing a nil pointer, is a run-time
  panic; \<^verbatim>\<open>context.WithValue\<close> panics with a message on a nil parent.  A function that
  can panic returns \<open>panic + 'a\<close>, with \<open>Inl\<close> for the panic.
\<close>

datatype panic = NilPointerDereference | PanicMessage string

text \<open>
  Values of type \<^verbatim>\<open>any\<close> (\<^verbatim>\<open>interface{}\<close>): the nil interface, a string, an integer.
  These are the dynamic types the logger itself stores; other dynamic types are not modelled.
\<close>

datatype any = ANil | AStr string | AInt int

subsection \<open>Package strings\<close>

text \<open>
  \<^verbatim>\<open>strings.ToLower\<close> and \<^verbatim>\<open>strings.ToUpper\<close> on the ASCII letters (a byte outside
  \<^verbatim>\<open>A-Z\<close>, respectively \<^verbatim>\<open>a-z\<close>, is kept).
\<close>

definition lower_byte :: "char \<Rightarrow> char" where
  "lower_byte c =
     (case map_of (zip ''ABCDEFGHIJKLMNOPQRSTUVWXYZ'' ''abcdefghijklmnopqrstuvwxyz'') c of
        Some d \<Rightarrow> d
      | None \<Rightarrow> c)"

definition upper_byte :: "char \<Rightarrow> char" where
  "upper_byte c =
     (case map_of (zip ''abcdefghijklmnopqrstuvwxyz'' ''ABCDEFGHIJKLMNOPQRSTUVWXYZ'') c of
        Some d \<Rightarrow> d
      | None \<Rightarrow> c)"

definition strings_ToLower :: "string \<Rightarrow> string" where
  "strings_ToLower s = map lower_byte s"

definition strings_ToUpper :: "string \<Rightarrow> string" where
  "strings_ToUpper s = map upper_byte s"

text \<open>
  \<^verbatim>\<open>strings.ReplaceAll(s, old, new)\<close>: every non-overlapping instance of \<open>old\<close>, found
  from the left, is replaced by \<open>new\<close>; the text put in is not scanned again.  With an empty
  \<open>old\<close> the replacement goes before every byte and at the end (the program never passes
  an empty \<open>old\<close>).
\<close>

function strings_ReplaceAll :: "string \<Rightarrow> string \<Rightarrow> string \<Rightarrow> string" where
  "strings_ReplaceAll [] old new = (if old = [] then new else [])"
| "strings_ReplaceAll (c # cs) old new =
     (if old = [] then new @ concat (map (\<lambda>x. x # new) (c # cs))
      else if prefix old (c # cs)
        then new @ strings_ReplaceAll (drop (length old) (c # cs)) old new
      else c # strings_ReplaceAll cs old new)"
  by pat_completeness auto
termination
  by (relation "measure (\<lambda>(s, old, new). length s)") auto

text \<open>
  \<^verbatim>\<open>strings.Split(s, sep)\<close> for a non-empty separator: \<open>cur\<close> is the part of the current
  piece already scanned.  The result is never empty.  (With an empty separator Go splits
  after every UTF-8 sequence; the program never does that, and the model splits after every
  byte.)
\<close>

function splitFrom :: "string \<Rightarrow> string \<Rightarrow> string \<Rightarrow> string list" where
  "splitFrom [] sep cur = [cur]"
| "splitFrom (c # cs) sep cur =
     (if sep \<noteq> [] \<and> prefix sep (c # cs)
        then cur # splitFrom (drop (length sep) (c # cs)) sep []
      else splitFrom cs sep (cur @ [c]))"
  by pat_completeness auto
termination
  by (relation "measure (\<lambda>(s, sep, cur). length s)") auto

definition strings_Split :: "string \<Rightarrow> string \<Rightarrow> string list" where
  "strings_Split s sep = (if sep = [] then map (\<lambda>c. [c]) s else splitFrom s sep [])"

subsection \<open>Packages path, strconv and fmt\<close>

text \<open>
  \<^verbatim>\<open>path.Base\<close>: the last element of a slash-separated path, after the trailing slashes
  are removed; \<^verbatim>\<open>"."\<close> for the empty path and \<^verbatim>\<open>"/"\<close> for a path of slashes only.
\<close>

definition path_Base :: "string \<Rightarrow> string" where
  "path_Base p =
     (if p = [] then ''.''
      else let q = rev (dropWhile (\<lambda>c. c = CHR ''/'') (rev p));
               r = rev (takeWhile (\<lambda>c. c \<noteq> CHR ''/'') (rev q))
           in if r = [] then ''/'' else r)"

text \<open>The decimal digits of a natural number, and \<^verbatim>\<open>%d\<close> of an \<^verbatim>\<open>int\<close>.\<close>

function decimal :: "nat \<Rightarrow> string" where
  "decimal n =
     (if n < 10 then [''0123456789'' ! n]
      else decimal (n div 10) @ [''0123456789'' ! (n mod 10)])"
  by pat_completeness auto
termination
  by (relation "measure id") auto

declare decimal.simps [simp del]

definition strconv_Itoa :: "int \<Rightarrow> string" where
  "strconv_Itoa i = (if i < 0 then CHR ''-'' # decimal (nat (- i)) else decimal (nat i))"

text \<open>\<^verbatim>\<open>fmt.Sprint\<close> of one value, which is also what the verb \<^verbatim>\<open>%v\<close> prints.\<close>

fun fmt_Sprint :: "any \<Rightarrow> string" where
  "fmt_Sprint ANil = ''<nil>''"
| "fmt_Sprint (AStr s) = s"
| "fmt_Sprint (AInt i) = strconv_Itoa i"

subsection \<open>Package context\<close>

text \<open>
  A context key is compared by its dynamic type and its value: the formatter package's
  \<^verbatim>\<open>contextKey\<close> and the \<^verbatim>\<open>logContextKey\<close> of \<^verbatim>\<open>Logger.go\<close> are different types.
  A non-nil context is the background context, a value node over a parent, or a
  cancellation (deadline, timeout) node over a parent; \<^verbatim>\<open>Value\<close> finds the nearest node
  with the key and is nil when there is none.  A variable of type \<^verbatim>\<open>context.Context\<close> may
  also hold the nil interface: that is \<open>None\<close>.
\<close>

datatype ctx_key = contextKey string | logContextKey string

datatype Context = Background | WithValue Context ctx_key any | WithCancel Context

fun Context_Value :: "Context \<Rightarrow> ctx_key \<Rightarrow> any" where
  "Context_Value Background key = ANil"
| "Context_Value (WithValue parent k v) key = (if k = key then v else Context_Value parent key)"
| "Context_Value (WithCancel parent) key = Context_Value parent key"

definition context_WithValue :: "Context option \<Rightarrow> ctx_key \<Rightarrow> any \<Rightarrow> panic + Context" where
  "context_WithValue parent key val =
     (case parent of
        None \<Rightarrow> Inl (PanicMessage ''cannot create context from nil parent'')
      | Some p \<Rightarrow> Inr (WithValue p key val))"

section \<open>logger/formatter.go\<close>

text \<open>\<^verbatim>\<open>DefaultFunctionNameFormatter.Format\<close>.\<close>

definition DefaultFunctionNameFormatter_Format :: "string \<Rightarrow> string" where
  "DefaultFunctionNameFormatter_Format fullName =
     (let parts = strings_Split fullName ''.''
      in if length parts > 0 then parts ! (length parts - 1) else fullName)"

text \<open>\<^verbatim>\<open>DefaultMessageFormater.Format\<close>.\<close>

definition DefaultMessageFormater_Format :: "string \<Rightarrow> string" where
  "DefaultMessageFormater_Format message = message"

text \<open>
  A \<^verbatim>\<open>runtime.Frame\<close>, a logrus level with its \<^verbatim>\<open>String\<close> method, and the
  \<^verbatim>\<open>logrus.Entry\<close> handed to a formatter.  The time of the entry is given by its
  \<^verbatim>\<open>Format\<close> method, from a layout to the text.
\<close>

record Frame =
  File :: string
  Line :: int
  Function :: string

datatype logrus_Level =
  logrus_PanicLevel | logrus_FatalLevel | logrus_ErrorLevel | logrus_WarnLevel
  | logrus_InfoLevel | logrus_DebugLevel | logrus_TraceLevel

fun logrus_Level_String :: "logrus_Level \<Rightarrow> string" where
  "logrus_Level_String logrus_PanicLevel = ''panic''"
| "logrus_Level_String logrus_FatalLevel = ''fatal''"
| "logrus_Level_String logrus_ErrorLevel = ''error''"
| "logrus_Level_String logrus_WarnLevel = ''warning''"
| "logrus_Level_String logrus_InfoLevel = ''info''"
| "logrus_Level_String logrus_DebugLevel = ''debug''"
| "logrus_Level_String logrus_TraceLevel = ''trace''"

type_synonym Fields = "string \<rightharpoonup> any"

record Entry =
  Data :: Fields
  Time :: "string \<Rightarrow> string"
  Level :: logrus_Level
  Caller :: "Frame option"
  Message :: string

text \<open>
  \<^verbatim>\<open>DynamicFormatter\<close>.  The two hooks are interface values: \<open>None\<close> is the nil
  interface, \<open>Some g\<close> an object whose \<^verbatim>\<open>Format\<close> method is \<open>g\<close>.
\<close>

record DynamicFormatter =
  Pattern :: string
  TimestampFormat :: string
  MsgFormatter :: "(string \<Rightarrow> string) option"
  FunctionNameFormatter :: "(string \<Rightarrow> string) option"

text \<open>
  The eight texts that \<^verbatim>\<open>DynamicFormatter.Format\<close> computes from the entry (its local
  variables), and lines 66 to 74: the eight replacements, in order.
\<close>

record Replacements =
  r_timestamp :: string
  r_level :: string
  r_logger :: string
  r_file :: string
  r_line :: string
  r_function :: string
  r_requestID :: string
  r_message :: string

definition substitute :: "string \<Rightarrow> Replacements \<Rightarrow> string" where
  "substitute pattern v =
     (let out = pattern;
          out = strings_ReplaceAll out ''%timestamp%'' (r_timestamp v);
          out = strings_ReplaceAll out ''%level%'' (r_level v);
          out = strings_ReplaceAll out ''%logger%'' (r_logger v);
          out = strings_ReplaceAll out ''%file%'' (r_file v);
          out = strings_ReplaceAll out ''%line%'' (r_line v);
          out = strings_ReplaceAll out ''%function%'' (r_function v);
          out = strings_ReplaceAll out ''%requestId%'' (r_requestID v);
          out = strings_ReplaceAll out ''%message%'' (r_message v)
      in out)"

text \<open>Lines 61 to 64: the text that replaces \<^verbatim>\<open>%requestId%\<close>.\<close>

definition requestID_of :: "Entry \<Rightarrow> string" where
  "requestID_of entry =
     (case Data entry ''requestId'' of None \<Rightarrow> ''unknown'' | Some rid \<Rightarrow> fmt_Sprint rid)"

text \<open>Lines 45 to 48: the value that replaces \<^verbatim>\<open>%logger%\<close>.\<close>

definition logger_of :: "Entry \<Rightarrow> any" where
  "logger_of entry =
     (case Data entry ''logger'' of
        None \<Rightarrow> AStr ''main''
      | Some v \<Rightarrow> if v = ANil then AStr ''main'' else v)"

text \<open>
  Lines 52 to 59: file, line and function of the call site.  The function-name hook is
  called only when the entry has a caller.
\<close>

definition caller_of :: "DynamicFormatter \<Rightarrow> Entry \<Rightarrow> panic + (string \<times> int \<times> string)" where
  "caller_of f entry =
     (case Caller entry of
        None \<Rightarrow> Inr (''???'', 0, ''???'')
      | Some fr \<Rightarrow>
          (case FunctionNameFormatter f of
             None \<Rightarrow> Inl NilPointerDereference
           | Some ff \<Rightarrow> Inr (path_Base (File fr), Line fr, ff (Function fr))))"

text \<open>
  \<^verbatim>\<open>DynamicFormatter.Format\<close>, lines 43 to 64: the eight texts, or the panic of calling
  a hook that is nil.  The message hook is called first.
\<close>

definition values_of :: "DynamicFormatter \<Rightarrow> Entry \<Rightarrow> panic + Replacements" where
  "values_of f entry =
     (let timestamp = Time entry (TimestampFormat f);
          level = strings_ToUpper (logrus_Level_String (Level entry));
          logger = logger_of entry
      in case MsgFormatter f of
           None \<Rightarrow> Inl NilPointerDereference
         | Some mf \<Rightarrow>
             (let message = mf (Message entry)
              in case caller_of f entry of
                   Inl p \<Rightarrow> Inl p
                 | Inr (file, line, function) \<Rightarrow>
                     (let requestID = requestID_of entry
                      in Inr \<lparr>r_timestamp = timestamp, r_level = level,
                              r_logger = fmt_Sprint logger, r_file = file,
                              r_line = strconv_Itoa line, r_function = function,
                              r_requestID = requestID, r_message = message\<rparr>)))"

text \<open>
  \<^verbatim>\<open>DynamicFormatter.Format\<close>: the texts are substituted into the pattern and a newline
  is appended.  The result is the pair of the bytes and the error, and the error is always
  nil (\<open>None\<close>).
\<close>

definition Format :: "DynamicFormatter \<Rightarrow> Entry \<Rightarrow> panic + (string \<times> string option)" where
  "Format f entry =
     (case values_of f entry of
        Inl p \<Rightarrow> Inl p
      | Inr v \<Rightarrow>
          (let out = substitute (Pattern f) v
           in Inr (out @ [CHR 0x0A], None)))"

text \<open>
  The earlier \<^verbatim>\<open>DynamicFormatter.Format\<close> (\<^verbatim>\<open>unnamed/part_001\<close>), which has no hooks:
  the message and the function name are substituted as they are.
\<close>

definition values_part_001 :: "string \<Rightarrow> Entry \<Rightarrow> Replacements" where
  "values_part_001 timestampFormat entry =
     (let timestamp = Time entry timestampFormat;
          level = strings_ToUpper (logrus_Level_String (Level entry));
          logger = logger_of entry;
          message = Message entry;
          (file, line, function) =
             (case Caller entry of
                None \<Rightarrow> (''???'', 0, ''???'')
              | Some fr \<Rightarrow> (path_Base (File fr), Line fr, Function fr));
          requestID = requestID_of entry
      in \<lparr>r_timestamp = timestamp, r_level = level,
          r_logger = fmt_Sprint logger, r_file = file,
          r_line = strconv_Itoa line, r_function = function,
          r_requestID = requestID, r_message = message\<rparr>)"

definition Format_part_001 :: "string \<Rightarrow> string \<Rightarrow> Entry \<Rightarrow> string \<times> string option" where
  "Format_part_001 pattern timestampFormat entry =
     (let out = substitute pattern (values_part_001 timestampFormat entry)
      in (out @ [CHR 0x0A], None))"

section \<open>logger/context.go\<close>

definition requestIDKey :: ctx_key where
  "requestIDKey = contextKey ''requestId''"

definition InjectRequestID :: "Context option \<Rightarrow> string \<Rightarrow> panic + Context" where
  "InjectRequestID ctx requestID = context_WithValue ctx requestIDKey (AStr requestID)"

definition GetRequestID :: "Context option \<Rightarrow> panic + string" where
  "GetRequestID ctx =
     (case ctx of
        None \<Rightarrow> Inl NilPointerDereference
      | Some c \<Rightarrow>
          (let v = Context_Value c requestIDKey
           in if v = ANil then Inr ''unknown'' else Inr (fmt_Sprint v)))"

text \<open>
  \<^verbatim>\<open>WithContext\<close> returns \<^verbatim>\<open>Log.WithFields\<close> of the one field \<^verbatim>\<open>requestId\<close>: an entry of
  the global logger, which is given here by the fields it carries.
\<close>

definition WithContext :: "Context option \<Rightarrow> panic + Fields" where
  "WithContext ctx =
     (case GetRequestID ctx of
        Inl p \<Rightarrow> Inl p
      | Inr requestID \<Rightarrow> Inr (Map.empty(''requestId'' \<mapsto> AStr requestID)))"


subsection \<open>The logrus logger that the package configures\<close>

text \<open>
  The part of \<^verbatim>\<open>logrus.Logger\<close> that \<^verbatim>\<open>Init\<close> sets.  When an entry with fields \<open>flds\<close>
  logs \<open>msg\<close> at \<open>level\<close>, logrus drops the call if the level is not enabled (a level is
  enabled when it is at most as verbose as the logger's), and otherwise hands the formatter
  an entry with these fields, the current time, the level, the message and, if caller
  reporting is on, the frame it found (if any), and writes the bytes the formatter returns.
  A panic of the formatter is not recovered.
\<close>

record logrus_Logger =
  ReportCaller :: bool
  LoggerLevel :: logrus_Level
  Formatter :: DynamicFormatter

fun logrus_rank :: "logrus_Level \<Rightarrow> nat" where
  "logrus_rank logrus_PanicLevel = 0"
| "logrus_rank logrus_FatalLevel = 1"
| "logrus_rank logrus_ErrorLevel = 2"
| "logrus_rank logrus_WarnLevel = 3"
| "logrus_rank logrus_InfoLevel = 4"
| "logrus_rank logrus_DebugLevel = 5"
| "logrus_rank logrus_TraceLevel = 6"

definition emitted_entry ::
  "logrus_Logger \<Rightarrow> Fields \<Rightarrow> logrus_Level \<Rightarrow> string \<Rightarrow> (string \<Rightarrow> string) \<Rightarrow> Frame option
     \<Rightarrow> Entry" where
  "emitted_entry lg flds level msg now frame =
     \<lparr>Data = flds, Time = now, Level = level,
      Caller = (if ReportCaller lg then frame else None), Message = msg\<rparr>"

definition Entry_Log ::
  "logrus_Logger \<Rightarrow> Fields \<Rightarrow> logrus_Level \<Rightarrow> string \<Rightarrow> (string \<Rightarrow> string) \<Rightarrow> Frame option
     \<Rightarrow> panic + string list" where
  "Entry_Log lg flds level msg now frame =
     (if logrus_rank level \<le> logrus_rank (LoggerLevel lg)
      then (case Format (Formatter lg) (emitted_entry lg flds level msg now frame) of
              Inl p \<Rightarrow> Inl p
            | Inr (bytes, err) \<Rightarrow> Inr [bytes])
      else Inr [])"

definition Entry_Info ::
  "logrus_Logger \<Rightarrow> Fields \<Rightarrow> string \<Rightarrow> (string \<Rightarrow> string) \<Rightarrow> Frame option
     \<Rightarrow> panic + string list" where
  "Entry_Info lg flds msg now frame = Entry_Log lg flds logrus_InfoLevel msg now frame"

subsection \<open>Init\<close>

text \<open>
  The fields of \<^verbatim>\<open>LogConfig\<close> that \<^verbatim>\<open>Init\<close> reads (the type is declared in a file that is
  not part of the sources at hand).
\<close>

record LogConfig =
  cfg_TimestampFormat :: string
  cfg_Pattern :: string
  cfg_Level :: string

text \<open>
  \<^verbatim>\<open>Init\<close>.  Its parameters are what it gets from outside: the result of
  \<^verbatim>\<open>LoadLogConfig\<close> (an error or a configuration), \<^verbatim>\<open>logrus.ParseLevel\<close> (\<open>None\<close> when
  it returns an error) and the registered message formatter.  It returns the configured
  logger and its error, which is always nil.  It sets no function-name hook.
\<close>

definition Init ::
  "string + LogConfig \<Rightarrow> (string \<Rightarrow> logrus_Level option) \<Rightarrow> (string \<Rightarrow> string) option
     \<Rightarrow> logrus_Logger \<times> string option" where
  "Init loaded ParseLevel registeredMessageFormater =
     (let cfg = (case loaded of
                   Inl err \<Rightarrow>
                     \<lparr>cfg_TimestampFormat = ''2006-01-02 15:04:05'',
                      cfg_Pattern = ''%timestamp% | %level% | %requestId% | %file%:%line% | %function% | %message%'',
                      cfg_Level = ''info''\<rparr>
                 | Inr c \<Rightarrow> c);
          level = (case ParseLevel (cfg_Level cfg) of
                     None \<Rightarrow> logrus_InfoLevel
                   | Some l \<Rightarrow> l)
      in (\<lparr>ReportCaller = True, LoggerLevel = level,
           Formatter = \<lparr>Pattern = cfg_Pattern cfg, TimestampFormat = cfg_TimestampFormat cfg,
                         MsgFormatter = registeredMessageFormater,
                         FunctionNameFormatter = None\<rparr>\<rparr>,
          None))"

text \<open>
  \<^verbatim>\<open>logrus.ParseLevel\<close> as the library documents it: the seven level names and
  \<^verbatim>\<open>warning\<close>, in any letter case.  It is an instance of the second parameter of \<open>Init\<close>.
\<close>

definition logrus_ParseLevel :: "string \<Rightarrow> logrus_Level option" where
  "logrus_ParseLevel lvl =
     (let s = strings_ToLower lvl
      in if s = ''panic'' then Some logrus_PanicLevel
         else if s = ''fatal'' then Some logrus_FatalLevel
         else if s = ''error'' then Some logrus_ErrorLevel
         else if s = ''warn'' \<or> s = ''warning'' then Some logrus_WarnLevel
         else if s = ''info'' then Some logrus_InfoLevel
         else if s = ''debug'' then Some logrus_DebugLevel
         else if s = ''trace'' then Some logrus_TraceLevel
         else None)"

section \<open>logger/Logger.go and the configuration\<close>

type_synonym LogLevel = int

definition DebugLevel :: LogLevel where "DebugLevel = 1"
definition InfoLevel :: LogLevel where "InfoLevel = 2"
definition WarnLevel :: LogLevel where "WarnLevel = 3"
definition ErrorLevel :: LogLevel where "ErrorLevel = 4"

record Config =
  LogType :: string
  LogDir :: string
  LogLevel :: string
  LogFormat :: string

definition DefaultConfig :: Config where
  "DefaultConfig = \<lparr>LogType = ''console'', LogDir = ''./logs'', LogLevel = ''info'',
                     LogFormat = ''text''\<rparr>"

text \<open>
  \<^verbatim>\<open>StdLogger\<close>: the minimum level and the format.  Its third field, the \<^verbatim>\<open>log.Logger\<close>
  it writes to, is the sink: the functions below return what they write to it.
\<close>

record StdLogger =
  currentLevel :: LogLevel
  format :: string

definition RequestIDKey :: ctx_key where
  "RequestIDKey = logContextKey ''requestID''"

definition parseLogLevel :: "string \<Rightarrow> LogLevel" where
  "parseLogLevel level =
     (let s = strings_ToLower level
      in if s = ''debug'' then DebugLevel
         else if s = ''info'' then InfoLevel
         else if s = ''warn'' then WarnLevel
         else if s = ''error'' then ErrorLevel
         else InfoLevel)"

text \<open>
  \<^verbatim>\<open>NewLogger\<close> takes a pointer to the configuration and reads it at once: a nil pointer
  panics.  Creating the directory and opening the file only decide which writers the sink
  has; their errors go to the standard error stream, and no error is returned.
\<close>

definition NewLogger :: "Config option \<Rightarrow> panic + StdLogger" where
  "NewLogger cfg =
     (case cfg of
        None \<Rightarrow> Inl NilPointerDereference
      | Some c \<Rightarrow>
          Inr \<lparr>currentLevel = parseLogLevel (LogLevel c),
               format = strings_ToLower (LogFormat c)\<rparr>)"

definition DefaultLogger :: "panic + StdLogger" where
  "DefaultLogger = NewLogger (Some DefaultConfig)"

definition shouldLog :: "StdLogger \<Rightarrow> LogLevel \<Rightarrow> bool" where
  "shouldLog l level = (level \<ge> currentLevel l)"

text \<open>
  What a call of \<^verbatim>\<open>log\<close> gets from its environment: the result of \<^verbatim>\<open>fmt.Sprintf\<close> on the
  message and its arguments, the time in the layout RFC3339, file and line of
  \<^verbatim>\<open>runtime.Caller(3)\<close>, the function name of \<^verbatim>\<open>runtime.Caller(2)\<close> when that call
  succeeds, the result of \<^verbatim>\<open>json.Marshal\<close> (\<open>None\<close> for an error, which \<^verbatim>\<open>log\<close> ignores
  and then prints the empty string), and the prefix (date, time, file and line) that the
  \<^verbatim>\<open>log.Logger\<close> puts in front of every output.
\<close>

record runtime_env =
  sprintf :: "string \<Rightarrow> any list \<Rightarrow> string"
  now_RFC3339 :: string
  caller_file :: string
  caller_line :: int
  caller_func :: "string option"
  json_Marshal :: "Fields \<Rightarrow> string option"
  log_header :: string

text \<open>
  \<^verbatim>\<open>log.Logger.Output\<close> writes the prefix and the text, and a newline unless the text
  already ends with one.  \<^verbatim>\<open>Println\<close> of one string passes the string and a newline.
\<close>

definition log_Output :: "string \<Rightarrow> string \<Rightarrow> string" where
  "log_Output header s =
     header @ s @ (if s = [] \<or> last s \<noteq> CHR 0x0A then [CHR 0x0A] else [])"

definition log_Println :: "string \<Rightarrow> string \<Rightarrow> string" where
  "log_Println header s = log_Output header (s @ [CHR 0x0A])"

text \<open>Lines 136 to 144 of \<^verbatim>\<open>StdLogger.log\<close>: the object that the JSON format serialises.\<close>

definition log_entry ::
  "string \<Rightarrow> string \<Rightarrow> string \<Rightarrow> string \<Rightarrow> int \<Rightarrow> any \<Rightarrow> runtime_env \<Rightarrow> Fields" where
  "log_entry levelStr formatted file funcName line requestID env =
     [''level'' \<mapsto> AStr levelStr,
      ''time'' \<mapsto> AStr (now_RFC3339 env),
      ''message'' \<mapsto> AStr formatted,
      ''file'' \<mapsto> AStr file,
      ''function'' \<mapsto> AStr funcName,
      ''line'' \<mapsto> AInt line,
      ''requestID'' \<mapsto> requestID]"

text \<open>
  \<^verbatim>\<open>StdLogger.log\<close>.  The result is the list of outputs written to the sink: none when the
  level is below the minimum.  \<^verbatim>\<open>ctx.Value\<close> on the nil context panics.
\<close>

definition StdLogger_log ::
  "StdLogger \<Rightarrow> LogLevel \<Rightarrow> string \<Rightarrow> string \<Rightarrow> Context option \<Rightarrow> any list \<Rightarrow> runtime_env
     \<Rightarrow> panic + string list" where
  "StdLogger_log l level levelStr msg ctx args env =
     (if \<not> shouldLog l level then Inr []
      else
        let formatted = sprintf env msg args;
            file = caller_file env;
            line = caller_line env;
            funcName = (case caller_func env of None \<Rightarrow> ''unknown'' | Some n \<Rightarrow> n)
        in case ctx of
             None \<Rightarrow> Inl NilPointerDereference
           | Some c \<Rightarrow>
               (let requestID = Context_Value c RequestIDKey
                in if format l = ''json''
                   then
                     (let entry = log_entry levelStr formatted file funcName line requestID env;
                          jsonData = (case json_Marshal env entry of None \<Rightarrow> [] | Some j \<Rightarrow> j)
                      in Inr [log_Println (log_header env) jsonData])
                   else
                     Inr [log_Output (log_header env)
                            (''['' @ strings_ToUpper levelStr @ ''] '' @ now_RFC3339 env
                             @ '' | file='' @ file @ '', function='' @ funcName
                             @ '', line='' @ strconv_Itoa line
                             @ '', requestID='' @ fmt_Sprint requestID
                             @ '' | '' @ formatted)]))"

definition StdLogger_Debug :: "StdLogger \<Rightarrow> string \<Rightarrow> any list \<Rightarrow> runtime_env \<Rightarrow> panic + string list" where
  "StdLogger_Debug l msg args env = StdLogger_log l DebugLevel ''debug'' msg None args env"

definition StdLogger_Info :: "StdLogger \<Rightarrow> string \<Rightarrow> any list \<Rightarrow> runtime_env \<Rightarrow> panic + string list" where
  "StdLogger_Info l msg args env = StdLogger_log l InfoLevel ''info'' msg None args env"

definition StdLogger_Warn :: "StdLogger \<Rightarrow> string \<Rightarrow> any list \<Rightarrow> runtime_env \<Rightarrow> panic + string list" where
  "StdLogger_Warn l msg args env = StdLogger_log l WarnLevel ''warn'' msg None args env"

definition StdLogger_Error :: "StdLogger \<Rightarrow> string \<Rightarrow> any list \<Rightarrow> runtime_env \<Rightarrow> panic + string list" where
  "StdLogger_Error l msg args env = StdLogger_log l ErrorLevel ''error'' msg None args env"

text \<open>\<^verbatim>\<open>StdLoggerWithContext\<close>: the embedded logger and the bound context.\<close>

record StdLoggerWithContext =
  embedded :: StdLogger
  ctx :: "Context option"

definition StdLogger_WithContext :: "StdLogger \<Rightarrow> Context option \<Rightarrow> StdLoggerWithContext" where
  "StdLogger_WithContext l c = \<lparr>embedded = l, ctx = c\<rparr>"

definition StdLoggerWithContext_log ::
  "StdLoggerWithContext \<Rightarrow> LogLevel \<Rightarrow> string \<Rightarrow> string \<Rightarrow> Context option \<Rightarrow> any list
     \<Rightarrow> runtime_env \<Rightarrow> panic + string list" where
  "StdLoggerWithContext_log l level levelStr msg c args env =
     (let c' = (if c = None then ctx l else c)
      in StdLogger_log (embedded l) level levelStr msg c' args env)"

definition StdLoggerWithContext_Debug ::
  "StdLoggerWithContext \<Rightarrow> string \<Rightarrow> any list \<Rightarrow> runtime_env \<Rightarrow> panic + string list" where
  "StdLoggerWithContext_Debug l msg args env =
     StdLoggerWithContext_log l DebugLevel ''debug'' msg (ctx l) args env"

definition StdLoggerWithContext_Info ::
  "StdLoggerWithContext \<Rightarrow> string \<Rightarrow> any list \<Rightarrow> runtime_env \<Rightarrow> panic + string list" where
  "StdLoggerWithContext_Info l msg args env =
     StdLoggerWithContext_log l InfoLevel ''info'' msg (ctx l) args env"

definition StdLoggerWithContext_Warn ::
  "StdLoggerWithContext \<Rightarrow> string \<Rightarrow> any list \<Rightarrow> runtime_env \<Rightarrow> panic + string list" where
  "StdLoggerWithContext_Warn l msg args env =
     StdLoggerWithContext_log l WarnLevel ''warn'' msg (ctx l) args env"

definition StdLoggerWithContext_Error ::
  "StdLoggerWithContext \<Rightarrow> string \<Rightarrow> any list \<Rightarrow> runtime_env \<Rightarrow> panic + string list" where
  "StdLoggerWithContext_Error l msg args env =
     StdLoggerWithContext_log l ErrorLevel ''error'' msg (ctx l) args env"

section \<open>Notions used in the statements\<close>

text \<open>
  The recognised placeholders and the bytes that occur in them.  A part of a pattern is
  \<^emph>\<open>framed\<close> by what precedes and what follows it when each neighbour is empty or
  touches it with a byte that occurs in no placeholder (a space, a bar, a colon, ...): then
  no placeholder can lie across the border.
\<close>

definition recognized :: "string list" where
  "recognized = [''%timestamp%'', ''%level%'', ''%logger%'', ''%file%'', ''%line%'',
                 ''%function%'', ''%requestId%'', ''%message%'']"

definition placeholder_bytes :: "char set" where
  "placeholder_bytes = set (concat recognized)"

definition framed :: "string \<Rightarrow> string \<Rightarrow> bool" where
  "framed pre post \<longleftrightarrow>
     (pre = [] \<or> last pre \<notin> placeholder_bytes) \<and> (post = [] \<or> hd post \<notin> placeholder_bytes)"

text \<open>The pattern after the seven replacements that come before the message's.\<close>

definition before_message :: "string \<Rightarrow> Replacements \<Rightarrow> string" where
  "before_message pattern v =
     strings_ReplaceAll (strings_ReplaceAll (strings_ReplaceAll (strings_ReplaceAll
       (strings_ReplaceAll (strings_ReplaceAll (strings_ReplaceAll pattern
          ''%timestamp%'' (r_timestamp v))
          ''%level%'' (r_level v))
          ''%logger%'' (r_logger v))
          ''%file%'' (r_file v))
          ''%line%'' (r_line v))
          ''%function%'' (r_function v))
          ''%requestId%'' (r_requestID v)"


text \<open>
  The severities in the order of the specification, \<open>Debug < Info < Warn < Error\<close>:
  \<open>lower S\<close> lists the severities below \<open>S\<close>.
\<close>

datatype Severity = Debug | Info | Warn | Error

fun lower :: "Severity \<Rightarrow> Severity list" where
  "lower Debug = []"
| "lower Info = [Debug]"
| "lower Warn = [Debug, Info]"
| "lower Error = [Debug, Info, Warn]"

definition at_least :: "Severity \<Rightarrow> Severity \<Rightarrow> bool" where
  "at_least S M \<longleftrightarrow> M = S \<or> M \<in> set (lower S)"

fun LogLevel_of :: "Severity \<Rightarrow> LogLevel" where
  "LogLevel_of Debug = DebugLevel"
| "LogLevel_of Info = InfoLevel"
| "LogLevel_of Warn = WarnLevel"
| "LogLevel_of Error = ErrorLevel"

text \<open>The level string that the method of each severity passes to \<^verbatim>\<open>log\<close>.\<close>

fun levelStr_of :: "Severity \<Rightarrow> string" where
  "levelStr_of Debug = ''debug''"
| "levelStr_of Info = ''info''"
| "levelStr_of Warn = ''warn''"
| "levelStr_of Error = ''error''"

text \<open>The four level methods of the plain logger and of the context-bound logger.\<close>

fun StdLogger_call ::
  "Severity \<Rightarrow> StdLogger \<Rightarrow> string \<Rightarrow> any list \<Rightarrow> runtime_env \<Rightarrow> panic + string list" where
  "StdLogger_call Debug l msg args env = StdLogger_Debug l msg args env"
| "StdLogger_call Info l msg args env = StdLogger_Info l msg args env"
| "StdLogger_call Warn l msg args env = StdLogger_Warn l msg args env"
| "StdLogger_call Error l msg args env = StdLogger_Error l msg args env"

fun StdLoggerWithContext_call ::
  "Severity \<Rightarrow> StdLoggerWithContext \<Rightarrow> string \<Rightarrow> any list \<Rightarrow> runtime_env
     \<Rightarrow> panic + string list" where
  "StdLoggerWithContext_call Debug l msg args env = StdLoggerWithContext_Debug l msg args env"
| "StdLoggerWithContext_call Info l msg args env = StdLoggerWithContext_Info l msg args env"
| "StdLoggerWithContext_call Warn l msg args env = StdLoggerWithContext_Warn l msg args env"
| "StdLoggerWithContext_call Error l msg args env = StdLoggerWithContext_Error l msg args env"

text \<open>
  \<^verbatim>\<open>WithContext(ctx).Info(msg)\<close> and \<^verbatim>\<open>Log.Info(msg)\<close> on the logger \<open>lg\<close>: the outputs
  written.
\<close>

definition bound_Info ::
  "logrus_Logger \<Rightarrow> Context option \<Rightarrow> string \<Rightarrow> (string \<Rightarrow> string) \<Rightarrow> Frame option
     \<Rightarrow> panic + string list" where
  "bound_Info lg c msg now frame =
     (case WithContext c of
        Inl p \<Rightarrow> Inl p
      | Inr flds \<Rightarrow> Entry_Info lg flds msg now frame)"

definition unbound_Info ::
  "logrus_Logger \<Rightarrow> string \<Rightarrow> (string \<Rightarrow> string) \<Rightarrow> Frame option \<Rightarrow> panic + string list" where
  "unbound_Info lg msg now frame = Entry_Info lg Map.empty msg now frame"

subsection \<open>Concrete inputs\<close>

text \<open>
  A formatter with the two default hooks, a clock that shows one fixed instant whatever
  the layout, an entry without fields and without caller, a logger at level info, and an
  environment whose \<^verbatim>\<open>Sprintf\<close> is called without verbs and arguments.
\<close>

definition default_formatter :: "string \<Rightarrow> DynamicFormatter" where
  "default_formatter pattern =
     \<lparr>Pattern = pattern, TimestampFormat = ''2006-01-02 15:04:05'',
      MsgFormatter = Some DefaultMessageFormater_Format,
      FunctionNameFormatter = Some DefaultFunctionNameFormatter_Format\<rparr>"

definition fixed_clock :: "string \<Rightarrow> string" where
  "fixed_clock layout = ''2026-11-01 10:00:00''"

definition plain_entry :: "string \<Rightarrow> Entry" where
  "plain_entry msg =
     \<lparr>Data = Map.empty, Time = fixed_clock, Level = logrus_InfoLevel, Caller = None,
      Message = msg\<rparr>"

text \<open>The entry \<open>plain_entry msg\<close> with the field \<^verbatim>\<open>requestId\<close> set to the string \<open>rid\<close>.\<close>

definition tagged_entry :: "string \<Rightarrow> string \<Rightarrow> Entry" where
  "tagged_entry rid msg = (plain_entry msg)\<lparr>Data := [''requestId'' \<mapsto> AStr rid]\<rparr>"

definition info_logger :: "string \<Rightarrow> logrus_Logger" where
  "info_logger pattern =
     \<lparr>ReportCaller = True, LoggerLevel = logrus_InfoLevel,
      Formatter = default_formatter pattern\<rparr>"

definition some_frame :: Frame where
  "some_frame = \<lparr>File = ''/app/cmd/main.go'', Line = 25, Function = ''main.someFunc''\<rparr>"

definition plain_sprintf :: "string \<Rightarrow> any list \<Rightarrow> string" where
  "plain_sprintf msg args = msg"

definition no_json :: "Fields \<Rightarrow> string option" where
  "no_json entry = Some ''{}''"

definition some_env :: runtime_env where
  "some_env =
     \<lparr>sprintf = plain_sprintf, now_RFC3339 = ''2026-11-01T10:00:00Z'',
      caller_file = ''/app/cmd/main.go'', caller_line = 25,
      caller_func = Some ''main.someFunc'', json_Marshal = no_json,
      log_header = ''2026/11/01 10:00:00 Logger.go:148: ''\<rparr>"

section \<open>The default function-name formatter\<close>

lemma splitFrom_not_Nil: "splitFrom s sep cur \<noteq> []"
  by (induction s sep cur rule: splitFrom.induct) auto

lemma splitFrom_dot:
  "splitFrom (c # cs) ''.'' cur =
     (if c = CHR ''.'' then cur # splitFrom cs ''.'' [] else splitFrom cs ''.'' (cur @ [c]))"
  by simp

lemma takeWhile_no_dot:
  assumes "CHR ''.'' \<notin> set s"
  shows "rev (takeWhile (\<lambda>c. c \<noteq> CHR ''.'') (rev s)) = s"
proof -
  have "takeWhile (\<lambda>c. c \<noteq> CHR ''.'') (rev s) = rev s"
    by (rule takeWhile_eq_all_conv [THEN iffD2]) (use assms in auto)
  thus ?thesis by (simp only: rev_rev_ident)
qed

lemma last_splitFrom_dot:
  "last (splitFrom s ''.'' cur) =
     (if CHR ''.'' \<in> set s then rev (takeWhile (\<lambda>c. c \<noteq> CHR ''.'') (rev s)) else cur @ s)"
proof (induction s arbitrary: cur)
  case Nil
  show ?case by simp
next
  case (Cons c cs)
  show ?case
  proof (cases "c = CHR ''.''")
    case True
    have "last (splitFrom (c # cs) ''.'' cur) = last (splitFrom cs ''.'' [])"
      using True splitFrom_not_Nil [of cs "''.''" "[]"] by (simp del: splitFrom.simps add: splitFrom_dot)
    also have "\<dots> = (if CHR ''.'' \<in> set cs then rev (takeWhile (\<lambda>c. c \<noteq> CHR ''.'') (rev cs)) else cs)"
      using Cons.IH [of "[]"] by simp
    also have "\<dots> = rev (takeWhile (\<lambda>c. c \<noteq> CHR ''.'') (rev (c # cs)))"
      using True by (auto simp: takeWhile_append takeWhile_no_dot)
    finally show ?thesis using True by simp
  next
    case False
    have "last (splitFrom (c # cs) ''.'' cur) = last (splitFrom cs ''.'' (cur @ [c]))"
      using False by (simp del: splitFrom.simps add: splitFrom_dot)
    also have "\<dots> = (if CHR ''.'' \<in> set cs then rev (takeWhile (\<lambda>c. c \<noteq> CHR ''.'') (rev cs)) else (cur @ [c]) @ cs)"
      using Cons.IH [of "cur @ [c]"] by simp
    finally show ?thesis using False by (auto simp: takeWhile_append)
  qed
qed

lemma Format_last_segment:
  "DefaultFunctionNameFormatter_Format s = rev (takeWhile (\<lambda>c. c \<noteq> CHR ''.'') (rev s))"
proof -
  have ne: "splitFrom s ''.'' [] \<noteq> []" by (rule splitFrom_not_Nil)
  have "DefaultFunctionNameFormatter_Format s = last (splitFrom s ''.'' [])"
    using ne by (simp add: DefaultFunctionNameFormatter_Format_def strings_Split_def Let_def last_conv_nth)
  also have "\<dots> = rev (takeWhile (\<lambda>c. c \<noteq> CHR ''.'') (rev s))"
    by (simp add: last_splitFrom_dot takeWhile_no_dot)
  finally show ?thesis .
qed

text \<open>
  Claim C7.  The default function-name formatter returns what follows the last dot of the
  name: if the name is \<open>pre\<close>, a dot and a dot-free \<open>suf\<close>, the result is \<open>suf\<close>; a
  name without a dot is returned unchanged; and \<^verbatim>\<open>pkg.sub.Handler.Process\<close> gives
  \<^verbatim>\<open>Process\<close>.
\<close>

theorem C7_default_function_name:
  "(fullName = pre @ ''.'' @ suf \<and> CHR ''.'' \<notin> set suf
       \<longrightarrow> DefaultFunctionNameFormatter_Format fullName = suf)
   \<and> (CHR ''.'' \<notin> set fullName \<longrightarrow> DefaultFunctionNameFormatter_Format fullName = fullName)
   \<and> DefaultFunctionNameFormatter_Format ''pkg.sub.Handler.Process'' = ''Process''"
proof (intro conjI impI)
  assume a: "fullName = pre @ ''.'' @ suf \<and> CHR ''.'' \<notin> set suf"
  hence "rev fullName = rev suf @ CHR ''.'' # rev pre" by simp
  moreover have "\<forall>c \<in> set (rev suf). c \<noteq> CHR ''.''" using a by auto
  ultimately have "takeWhile (\<lambda>c. c \<noteq> CHR ''.'') (rev fullName) = rev suf"
    by (simp add: takeWhile_tail)
  thus "DefaultFunctionNameFormatter_Format fullName = suf"
    by (simp add: Format_last_segment)
next
  assume "CHR ''.'' \<notin> set fullName"
  thus "DefaultFunctionNameFormatter_Format fullName = fullName"
    by (simp add: Format_last_segment takeWhile_no_dot)
next
  show "DefaultFunctionNameFormatter_Format ''pkg.sub.Handler.Process'' = ''Process''"
    by (simp add: Format_last_segment)
qed

theorem C7_default_function_name_witness:
  "DefaultFunctionNameFormatter_Format ''main.someFunc'' = ''someFunc''
   \<and> DefaultFunctionNameFormatter_Format ''main'' = ''main''"
  using C7_default_function_name [of "''main.someFunc''" "''main''" "''someFunc''"]
    C7_default_function_name [of "''main''"]
  by simp

section \<open>Replacement\<close>

lemma ReplaceAll_Nil: "old \<noteq> [] \<Longrightarrow> strings_ReplaceAll [] old new = []"
  by simp

lemma prefix_append_sep:
  assumes "c \<notin> set old"
  shows "prefix old (u @ c # v) \<longleftrightarrow> prefix old u"
proof
  assume "prefix old (u @ c # v)"
  then obtain r where r: "u @ c # v = old @ r" by (auto simp: prefix_def)
  show "prefix old u"
  proof (cases "length old \<le> length u")
    case True
    with r show ?thesis
      by (metis append_eq_append_conv_if prefixI append_take_drop_id)
  next
    case False
    hence "length u < length old" by simp
    hence "old ! length u = (u @ c # v) ! length u" using r by (simp add: nth_append)
    hence "old ! length u = c" by simp
    with \<open>length u < length old\<close> have "c \<in> set old" by (metis nth_mem)
    with assms show ?thesis by simp
  qed
next
  assume "prefix old u" thus "prefix old (u @ c # v)" by (rule prefix_prefix)
qed

lemma ReplaceAll_sep:
  assumes "old \<noteq> []" and "c \<notin> set old"
  shows "strings_ReplaceAll (u @ c # v) old new
           = strings_ReplaceAll u old new @ c # strings_ReplaceAll v old new"
  using assms
proof (induction u old new rule: strings_ReplaceAll.induct)
  case (1 old new)
  have "\<not> prefix old (c # v)"
    using 1 by (cases old) auto
  thus ?case using 1 by simp
next
  case (2 x xs old new)
  show ?case
  proof (cases "prefix old (x # xs)")
    case True
    hence len: "length old \<le> length (x # xs)" by (rule prefix_length_le)
    have p: "prefix old ((x # xs) @ c # v)" by (rule prefix_prefix [OF True])
    have d: "drop (length old) ((x # xs) @ c # v) = drop (length old) (x # xs) @ c # v"
      using len drop_append [of "length old" "x # xs" "c # v"] by simp
    have "strings_ReplaceAll ((x # xs) @ c # v) old new
            = new @ strings_ReplaceAll (drop (length old) (x # xs) @ c # v) old new"
      using p d 2(3) by simp
    also have "\<dots> = new @ strings_ReplaceAll (drop (length old) (x # xs)) old new
                       @ c # strings_ReplaceAll v old new"
      using 2(1) [OF 2(3) True 2(3) 2(4)] by simp
    finally show ?thesis using True 2(3) by simp
  next
    case False
    have np: "\<not> prefix old ((x # xs) @ c # v)"
      using False prefix_append_sep [OF 2(4), of "x # xs" v] by simp
    have "strings_ReplaceAll ((x # xs) @ c # v) old new
            = x # strings_ReplaceAll (xs @ c # v) old new"
      using np 2(3) by simp
    also have "\<dots> = x # strings_ReplaceAll xs old new @ c # strings_ReplaceAll v old new"
      using 2(2) [OF 2(3) False 2(3) 2(4)] by simp
    finally show ?thesis using False 2(3) by simp
  qed
qed

lemma ReplaceAll_absent:
  assumes "\<not> sublist old t"
  shows "strings_ReplaceAll t old new = t"
  using assms
proof (induction t)
  case Nil
  hence "old \<noteq> []" by auto
  thus ?case by simp
next
  case (Cons x xs)
  have ne: "old \<noteq> []" using Cons.prems by auto
  have np: "\<not> prefix old (x # xs)" using Cons.prems by (simp add: sublist_Cons_right)
  have "\<not> sublist old xs" using Cons.prems by (simp add: sublist_Cons_right)
  thus ?case using ne np Cons.IH by simp
qed

lemma ReplaceAll_present:
  assumes "old \<noteq> []" and "sublist old s"
  shows "sublist new (strings_ReplaceAll s old new)"
  using assms
proof (induction s old new rule: strings_ReplaceAll.induct)
  case (1 old new)
  thus ?case by simp
next
  case (2 x xs old new)
  show ?case
  proof (cases "prefix old (x # xs)")
    case True
    thus ?thesis using 2(3) by simp
  next
    case False
    hence "sublist old xs" using 2(4) by (simp add: sublist_Cons_right)
    hence "sublist new (strings_ReplaceAll xs old new)" using 2(2) [OF 2(3) False 2(3)] by simp
    thus ?thesis using False 2(3) by (simp add: sublist_Cons_right)
  qed
qed


text \<open>The eight replacements of \<open>substitute\<close>, and how they act on the parts of a pattern.\<close>

lemma substitute_unfold:
  "substitute pattern v =
     strings_ReplaceAll (strings_ReplaceAll (strings_ReplaceAll (strings_ReplaceAll
       (strings_ReplaceAll (strings_ReplaceAll (strings_ReplaceAll (strings_ReplaceAll pattern
          ''%timestamp%'' (r_timestamp v))
          ''%level%'' (r_level v))
          ''%logger%'' (r_logger v))
          ''%file%'' (r_file v))
          ''%line%'' (r_line v))
          ''%function%'' (r_function v))
          ''%requestId%'' (r_requestID v))
          ''%message%'' (r_message v)"
  by (simp add: substitute_def Let_def)

lemma placeholder_subset: "set ''%timestamp%'' \<subseteq> placeholder_bytes" "set ''%level%'' \<subseteq> placeholder_bytes"
  "set ''%logger%'' \<subseteq> placeholder_bytes" "set ''%file%'' \<subseteq> placeholder_bytes"
  "set ''%line%'' \<subseteq> placeholder_bytes" "set ''%function%'' \<subseteq> placeholder_bytes"
  "set ''%requestId%'' \<subseteq> placeholder_bytes" "set ''%message%'' \<subseteq> placeholder_bytes"
  by (simp_all add: placeholder_bytes_def recognized_def)

lemma substitute_sep:
  assumes "c \<notin> placeholder_bytes"
  shows "substitute (u @ c # w) v = substitute u v @ c # substitute w v"
proof -
  have c: "c \<notin> set ''%timestamp%''" "c \<notin> set ''%level%''" "c \<notin> set ''%logger%''"
    "c \<notin> set ''%file%''" "c \<notin> set ''%line%''" "c \<notin> set ''%function%''"
    "c \<notin> set ''%requestId%''" "c \<notin> set ''%message%''"
    using assms placeholder_subset by blast+
  show ?thesis
    unfolding substitute_unfold
    by (simp only: ReplaceAll_sep [OF _ c(1)] ReplaceAll_sep [OF _ c(2)] ReplaceAll_sep [OF _ c(3)]
          ReplaceAll_sep [OF _ c(4)] ReplaceAll_sep [OF _ c(5)] ReplaceAll_sep [OF _ c(6)]
          ReplaceAll_sep [OF _ c(7)] ReplaceAll_sep [OF _ c(8)] list.simps simp_thms)
qed

lemma substitute_Nil: "substitute [] v = []"
  by (simp add: substitute_unfold)

lemma substitute_message: "substitute ''%message%'' v = r_message v"
  by (simp add: substitute_unfold)

lemma substitute_requestId:
  "substitute ''%requestId%'' v = strings_ReplaceAll (r_requestID v) ''%message%'' (r_message v)"
  by (simp add: substitute_unfold)

lemma substitute_absent:
  assumes "\<forall>p \<in> set recognized. \<not> sublist p t"
  shows "substitute t v = t"
proof -
  have n: "\<not> sublist ''%timestamp%'' t" "\<not> sublist ''%level%'' t" "\<not> sublist ''%logger%'' t"
    "\<not> sublist ''%file%'' t" "\<not> sublist ''%line%'' t" "\<not> sublist ''%function%'' t"
    "\<not> sublist ''%requestId%'' t" "\<not> sublist ''%message%'' t"
    using assms by (simp_all add: recognized_def)
  show ?thesis
    unfolding substitute_unfold
    by (simp only: ReplaceAll_absent [OF n(1)] ReplaceAll_absent [OF n(2)]
          ReplaceAll_absent [OF n(3)] ReplaceAll_absent [OF n(4)] ReplaceAll_absent [OF n(5)]
          ReplaceAll_absent [OF n(6)] ReplaceAll_absent [OF n(7)] ReplaceAll_absent [OF n(8)])
qed

lemma substitute_snoc:
  assumes "c \<notin> placeholder_bytes"
  shows "substitute (u @ [c]) v = substitute u v @ [c]"
  using substitute_sep [OF assms, of u "[]" v] by (simp add: substitute_Nil)

lemma substitute_Cons:
  assumes "c \<notin> placeholder_bytes"
  shows "substitute (c # w) v = c # substitute w v"
  using substitute_sep [OF assms, of "[]" w v] by (simp add: substitute_Nil)

lemma substitute_framed:
  assumes "framed pre post"
  shows "substitute (pre @ t @ post) v = substitute pre v @ substitute t v @ substitute post v"
proof -
  have right: "substitute (t @ post) v = substitute t v @ substitute post v"
  proof (cases post)
    case Nil
    thus ?thesis by (simp add: substitute_Nil)
  next
    case (Cons d w)
    hence "d \<notin> placeholder_bytes" using assms by (simp add: framed_def)
    thus ?thesis using Cons by (simp add: substitute_sep substitute_Cons)
  qed
  show ?thesis
  proof (cases pre rule: rev_cases)
    case Nil
    thus ?thesis using right by (simp add: substitute_Nil)
  next
    case (snoc u c)
    hence c: "c \<notin> placeholder_bytes" using assms by (simp add: framed_def)
    have "substitute (pre @ t @ post) v = substitute (u @ c # (t @ post)) v"
      using snoc by simp
    also have "\<dots> = substitute u v @ c # substitute (t @ post) v"
      by (rule substitute_sep [OF c])
    finally show ?thesis using right snoc by (simp add: substitute_snoc [OF c])
  qed
qed

lemma Format_Inr:
  assumes "values_of f e = Inr v"
  shows "Format f e = Inr (substitute (Pattern f) v @ [CHR 0x0A], None)"
  using assms by (simp add: Format_def Let_def)

lemma values_of_hooks:
  assumes "MsgFormatter f = Some mf" and "FunctionNameFormatter f = Some ff"
  shows "\<exists>v. values_of f e = Inr v \<and> r_message v = mf (Message e)
             \<and> r_requestID v = requestID_of e"
  using assms by (cases "Caller e") (simp_all add: values_of_def caller_of_def Let_def)

lemma values_of_message:
  assumes "values_of f e = Inr v"
  shows "\<exists>mf. MsgFormatter f = Some mf \<and> r_message v = mf (Message e)"
  using assms
  by (auto simp: values_of_def Let_def split: option.splits sum.splits prod.splits)

lemma values_of_requestID:
  assumes "values_of f e = Inr v"
  shows "r_requestID v = requestID_of e"
  using assms
  by (auto simp: values_of_def Let_def split: option.splits sum.splits prod.splits)

lemma values_of_default:
  "values_of (default_formatter p) (plain_entry m) =
     Inr \<lparr>r_timestamp = ''2026-11-01 10:00:00'', r_level = ''INFO'', r_logger = ''main'',
          r_file = ''???'', r_line = ''0'', r_function = ''???'', r_requestID = ''unknown'',
          r_message = m\<rparr>"
  by (simp add: values_of_def default_formatter_def plain_entry_def Let_def caller_of_def
        logger_of_def requestID_of_def fixed_clock_def strings_ToUpper_def upper_byte_def
        DefaultMessageFormater_Format_def strconv_Itoa_def decimal.simps)

lemma substitute_before_message:
  "substitute pattern v = strings_ReplaceAll (before_message pattern v) ''%message%'' (r_message v)"
  by (simp add: substitute_unfold before_message_def)

lemma unknown_token_unrecognized: "\<forall>p \<in> set recognized. \<not> sublist p ''%unknown%''"
  by (simp add: recognized_def sublist_Cons_right)

lemma framed_examples:
  "framed [] []" "framed ''%level% | '' '' | %message%''" "framed ''%level% | '' []"
  "framed ''%timestamp% | %level% | '' '' | %message%''"
  by (simp_all add: framed_def placeholder_bytes_def recognized_def)

lemma Pattern_default: "Pattern (default_formatter p) = p"
  by (simp add: default_formatter_def)

lemma Format_default:
  "Format (default_formatter p) (plain_entry m) =
     Inr (substitute p
            \<lparr>r_timestamp = ''2026-11-01 10:00:00'', r_level = ''INFO'', r_logger = ''main'',
             r_file = ''???'', r_line = ''0'', r_function = ''???'', r_requestID = ''unknown'',
             r_message = m\<rparr> @ [CHR 0x0A], None)"
  by (simp only: Format_Inr [OF values_of_default] Pattern_default)

section \<open>The pattern and the message\<close>

text \<open>
  Claim C3 fails at the empty pattern: the record with the message \<^verbatim>\<open>hello\<close> is rendered
  as an empty line, not as the message and a newline.
\<close>

theorem C3_empty_pattern_counterexample:
  "Format (default_formatter []) (plain_entry ''hello'') = Inr ([CHR 0x0A], None)
   \<and> Format (default_formatter []) (plain_entry ''hello'') \<noteq> Inr (''hello'' @ [CHR 0x0A], None)"
  by (simp add: Format_default substitute_Nil)

text \<open>
  Claim C3, as amended.  Whenever the hooks are set (the eight texts \<open>v\<close> are computed),
  rendering returns no error, and the pattern alone decides where the message goes: the
  empty pattern gives only a newline; the pattern \<^verbatim>\<open>%message%\<close> gives the message and a
  newline; and a framed occurrence of \<^verbatim>\<open>%message%\<close> in a pattern is replaced by the
  message, which no replacement takes out again.
\<close>

theorem C3_pattern_decides_message:
  assumes "values_of f e = Inr v"
  shows "(Pattern f = [] \<longrightarrow> Format f e = Inr ([CHR 0x0A], None))
     \<and> (Pattern f = ''%message%'' \<longrightarrow> Format f e = Inr (r_message v @ [CHR 0x0A], None))
     \<and> (framed pre post \<and> Pattern f = pre @ ''%message%'' @ post \<longrightarrow>
          Format f e = Inr (substitute pre v @ r_message v @ substitute post v @ [CHR 0x0A], None))"
proof (intro conjI impI)
  assume "Pattern f = []"
  thus "Format f e = Inr ([CHR 0x0A], None)"
    by (simp add: Format_Inr [OF assms] substitute_Nil)
next
  assume "Pattern f = ''%message%''"
  thus "Format f e = Inr (r_message v @ [CHR 0x0A], None)"
    by (simp only: Format_Inr [OF assms] substitute_message)
next
  assume "framed pre post \<and> Pattern f = pre @ ''%message%'' @ post"
  thus "Format f e = Inr (substitute pre v @ r_message v @ substitute post v @ [CHR 0x0A], None)"
    by (simp only: Format_Inr [OF assms] substitute_framed substitute_message append_assoc)
qed

theorem C3_pattern_decides_message_witness:
  "Format (default_formatter []) (plain_entry ''hello'') = Inr ([CHR 0x0A], None)
   \<and> Format (default_formatter ''%message%'') (plain_entry ''hello'') = Inr (''hello'' @ [CHR 0x0A], None)
   \<and> Format (default_formatter ''%level% | %message%'') (plain_entry ''hello'')
        = Inr (''INFO | hello'' @ [CHR 0x0A], None)"
  using C3_pattern_decides_message [OF values_of_default, of "[]" "''hello''" "[]" "[]"]
    C3_pattern_decides_message [OF values_of_default, of "''%message%''" "''hello''" "[]" "[]"]
    C3_pattern_decides_message [OF values_of_default, of "''%level% | %message%''" "''hello''"
      "''%level% | ''" "[]"]
  by (simp add: Pattern_default framed_examples substitute_unfold)

section \<open>Unrecognised tokens\<close>

text \<open>
  Claim C6 fails when the token shares a percent sign with a recognised placeholder: in
  the pattern \<^verbatim>\<open>%unknown%level%\<close> the replacement of \<^verbatim>\<open>%level%\<close> consumes the closing
  percent sign of \<^verbatim>\<open>%unknown%\<close>, and the token is no longer in the output.
\<close>

theorem C6_overlapping_token_counterexample:
  "Format (default_formatter ''%unknown%level%'') (plain_entry ''hello'')
     = Inr (''%unknownINFO'' @ [CHR 0x0A], None)
   \<and> \<not> sublist ''%unknown%'' (''%unknownINFO'' @ [CHR 0x0A])"
  by (simp add: Format_default substitute_unfold sublist_Cons_right)

text \<open>
  Claim C6, as amended.  A part \<open>t\<close> of the pattern in which no recognised placeholder
  occurs (such as the token \<^verbatim>\<open>%unknown%\<close>), framed by the rest of the pattern, is in the
  output as it is, between the renderings of what precedes and what follows it, and no
  error is returned.
\<close>

theorem C6_unrecognized_token_verbatim:
  assumes "values_of f e = Inr v"
    and "\<forall>p \<in> set recognized. \<not> sublist p t"
    and "framed pre post"
    and "Pattern f = pre @ t @ post"
  shows "Format f e = Inr (substitute pre v @ t @ substitute post v @ [CHR 0x0A], None)"
  using assms(4)
  by (simp only: Format_Inr [OF assms(1)] substitute_framed [OF assms(3)]
        substitute_absent [OF assms(2)] append_assoc)

theorem C6_unrecognized_token_verbatim_witness:
  "Format (default_formatter ''%level% | %unknown% | %message%'') (plain_entry ''hello'')
     = Inr (''INFO | %unknown% | hello'' @ [CHR 0x0A], None)"
  using C6_unrecognized_token_verbatim [OF values_of_default unknown_token_unrecognized
      framed_examples(2), of "''%level% | %unknown% | %message%''" "''hello''"]
  by (simp add: Pattern_default substitute_unfold)

lemma values_part_001_message: "r_message (values_part_001 tsf e) = Message e"
  by (cases "Caller e") (simp_all add: values_part_001_def Let_def)

lemma values_of_tagged:
  "values_of (default_formatter p) (tagged_entry rid m) =
     Inr \<lparr>r_timestamp = ''2026-11-01 10:00:00'', r_level = ''INFO'', r_logger = ''main'',
          r_file = ''???'', r_line = ''0'', r_function = ''???'', r_requestID = rid,
          r_message = m\<rparr>"
  by (simp add: values_of_def default_formatter_def plain_entry_def tagged_entry_def Let_def
        caller_of_def logger_of_def requestID_of_def fixed_clock_def strings_ToUpper_def
        upper_byte_def DefaultMessageFormater_Format_def strconv_Itoa_def decimal.simps)

section \<open>The order of the replacements\<close>

text \<open>
  Claim C10.  Whenever the eight texts \<open>v\<close> are computed, the message is replaced last:
  the output is the pattern after the seven other replacements, with \<^verbatim>\<open>%message%\<close>
  replaced by the message, and a newline.  So if \<^verbatim>\<open>%message%\<close> occurs there, the message
  is in the output as it is, whatever placeholder tokens it contains (a framed
  \<^verbatim>\<open>%message%\<close> of the pattern is replaced by exactly the message); while a framed
  \<^verbatim>\<open>%requestId%\<close> is replaced by the request ID in which every \<^verbatim>\<open>%message%\<close> has in turn
  been replaced by the message.  The earlier formatter of \<^verbatim>\<open>unnamed/part_001\<close> replaces
  the message last as well.
\<close>

theorem C10_message_replaced_last:
  assumes "values_of f e = Inr v"
  shows "Format f e
           = Inr (strings_ReplaceAll (before_message (Pattern f) v) ''%message%'' (r_message v)
                    @ [CHR 0x0A], None)
     \<and> (sublist ''%message%'' (before_message (Pattern f) v)
            \<longrightarrow> (\<exists>out. Format f e = Inr (out, None) \<and> sublist (r_message v) out))
     \<and> (framed pre post \<and> Pattern f = pre @ ''%message%'' @ post \<longrightarrow>
          Format f e
            = Inr (substitute pre v @ r_message v @ substitute post v @ [CHR 0x0A], None))
     \<and> (framed pre post \<and> Pattern f = pre @ ''%requestId%'' @ post \<longrightarrow>
          Format f e
            = Inr (substitute pre v
                     @ strings_ReplaceAll (r_requestID v) ''%message%'' (r_message v)
                     @ substitute post v @ [CHR 0x0A], None))
     \<and> Format_part_001 p tsf e
           = (strings_ReplaceAll (before_message p (values_part_001 tsf e)) ''%message%''
                (Message e) @ [CHR 0x0A], None)"
proof (intro conjI impI)
  show "Format f e
          = Inr (strings_ReplaceAll (before_message (Pattern f) v) ''%message%'' (r_message v)
                   @ [CHR 0x0A], None)"
    by (simp only: Format_Inr [OF assms] substitute_before_message)
next
  assume occ: "sublist ''%message%'' (before_message (Pattern f) v)"
  have "sublist (r_message v)
          (strings_ReplaceAll (before_message (Pattern f) v) ''%message%'' (r_message v))"
    by (rule ReplaceAll_present [OF _ occ]) simp
  hence "sublist (r_message v) (substitute (Pattern f) v @ [CHR 0x0A])"
    by (simp add: substitute_before_message sublist_append)
  thus "\<exists>out. Format f e = Inr (out, None) \<and> sublist (r_message v) out"
    using Format_Inr [OF assms] by blast
next
  assume "framed pre post \<and> Pattern f = pre @ ''%message%'' @ post"
  thus "Format f e
          = Inr (substitute pre v @ r_message v @ substitute post v @ [CHR 0x0A], None)"
    by (simp only: Format_Inr [OF assms] substitute_framed substitute_message append_assoc)
next
  assume "framed pre post \<and> Pattern f = pre @ ''%requestId%'' @ post"
  thus "Format f e
          = Inr (substitute pre v
                   @ strings_ReplaceAll (r_requestID v) ''%message%'' (r_message v)
                   @ substitute post v @ [CHR 0x0A], None)"
    by (simp only: Format_Inr [OF assms] substitute_framed substitute_requestId append_assoc)
next
  show "Format_part_001 p tsf e
          = (strings_ReplaceAll (before_message p (values_part_001 tsf e)) ''%message%''
               (Message e) @ [CHR 0x0A], None)"
    by (simp only: Format_part_001_def Let_def substitute_before_message
          values_part_001_message)
qed

theorem C10_message_replaced_last_witness:
  "Format (default_formatter ''%level% | %message%'') (tagged_entry ''req-42'' ''got %level%'')
     = Inr (''INFO | got %level%'' @ [CHR 0x0A], None)
   \<and> Format (default_formatter ''%level% | %requestId%'') (tagged_entry ''%message%'' ''hello'')
     = Inr (''INFO | hello'' @ [CHR 0x0A], None)
   \<and> sublist ''got %level%'' (''INFO | got %level%'' @ [CHR 0x0A])"
  using C10_message_replaced_last [OF values_of_tagged,
      of "''%level% | %message%''" "''req-42''" "''got %level%''" "''%level% | ''" "[]"]
    C10_message_replaced_last [OF values_of_tagged,
      of "''%level% | %requestId%''" "''%message%''" "''hello''" "''%level% | ''" "[]"]
  by (simp add: Pattern_default framed_examples substitute_unfold before_message_def
        sublist_Cons_right)


lemma WithContext_injected:
  "WithContext (Some (WithValue c requestIDKey (AStr r))) = Inr [''requestId'' \<mapsto> AStr r]"
  by (simp add: WithContext_def GetRequestID_def Let_def)

lemma InjectRequestID_Some:
  "InjectRequestID (Some c) r = Inr (WithValue c requestIDKey (AStr r))"
  by (simp add: InjectRequestID_def context_WithValue_def)

lemma Entry_Info_enabled:
  assumes "logrus_rank logrus_InfoLevel \<le> logrus_rank (LoggerLevel lg)"
    and "values_of (Formatter lg) (emitted_entry lg flds logrus_InfoLevel msg now frame) = Inr v"
  shows "Entry_Info lg flds msg now frame = Inr [substitute (Pattern (Formatter lg)) v @ [CHR 0x0A]]"
  using assms(1) by (simp add: Entry_Info_def Entry_Log_def Format_Inr [OF assms(2)])

lemma requestID_of_emitted:
  "requestID_of (emitted_entry lg flds level msg now frame)
     = (case flds ''requestId'' of None \<Rightarrow> ''unknown'' | Some rid \<Rightarrow> fmt_Sprint rid)"
  by (simp add: requestID_of_def emitted_entry_def)

lemma Itoa_25: "strconv_Itoa 25 = ''25''"
  by (simp add: strconv_Itoa_def decimal.simps)

lemma values_of_info_logger:
  "values_of (Formatter (info_logger p))
       (emitted_entry (info_logger p) flds logrus_InfoLevel m fixed_clock (Some some_frame))
     = Inr \<lparr>r_timestamp = ''2026-11-01 10:00:00'', r_level = ''INFO'', r_logger = fmt_Sprint (logger_of \<lparr>Data = flds, Time = fixed_clock, Level = logrus_InfoLevel, Caller = Some some_frame, Message = m\<rparr>),
          r_file = ''main.go'', r_line = ''25'', r_function = ''someFunc'',
          r_requestID = (case flds ''requestId'' of None \<Rightarrow> ''unknown'' | Some rid \<Rightarrow> fmt_Sprint rid),
          r_message = m\<rparr>"
  by (simp add: values_of_def info_logger_def default_formatter_def emitted_entry_def Let_def
        caller_of_def requestID_of_def fixed_clock_def strings_ToUpper_def
        upper_byte_def DefaultMessageFormater_Format_def Itoa_25 some_frame_def path_Base_def
        Format_last_segment)

section \<open>The request ID of a bound entry\<close>

text \<open>
  On a logger whose two hooks are set, a correlation ID that contains the token
  \<^verbatim>\<open>%message%\<close> is substituted again: with the pattern \<^verbatim>\<open>%requestId%\<close>, the ID
  \<^verbatim>\<open>%message%\<close> and \<^verbatim>\<open>Info("x")\<close> the output is \<^verbatim>\<open>x\<close> and a newline.
\<close>

lemma requestId_resubstituted_example:
  "InjectRequestID (Some Background) ''%message%''
     = Inr (WithValue Background requestIDKey (AStr ''%message%''))
   \<and> bound_Info (info_logger ''%requestId%'')
         (Some (WithValue Background requestIDKey (AStr ''%message%''))) ''x'' fixed_clock None
       = Inr [''x'' @ [CHR 0x0A]]
   \<and> ''x'' @ [CHR 0x0A] \<noteq> ''%message%'' @ [CHR 0x0A]"
  by (simp add: InjectRequestID_Some bound_Info_def WithContext_injected Entry_Info_def
        Entry_Log_def info_logger_def Format_def values_of_def default_formatter_def
        emitted_entry_def Let_def caller_of_def logger_of_def requestID_of_def
        DefaultMessageFormater_Format_def substitute_unfold)

text \<open>
  On a logger with level info enabled and both hooks set (\<open>v\<close> and \<open>u\<close> are the texts
  computed for the bound and for the unbound call), with \<^verbatim>\<open>%requestId%\<close> framed in the
  pattern: the text substituted for \<^verbatim>\<open>%requestId%\<close> by \<^verbatim>\<open>WithContext(c').Info(msg)\<close> is
  the injected \<open>r\<close>, the placeholder is rendered as \<open>r\<close> with every \<^verbatim>\<open>%message%\<close> in it
  replaced by the message, and on the unbound logger it is rendered as \<^verbatim>\<open>unknown\<close>.
\<close>

lemma requestId_rendering_with_hooks:
  assumes "InjectRequestID (Some c) r = Inr c'"
    and "values_of (Formatter lg)
           (emitted_entry lg [''requestId'' \<mapsto> AStr r] logrus_InfoLevel msg now frame) = Inr v"
    and "values_of (Formatter lg)
           (emitted_entry lg Map.empty logrus_InfoLevel msg now frame) = Inr u"
    and "logrus_rank logrus_InfoLevel \<le> logrus_rank (LoggerLevel lg)"
    and "framed pre post"
    and "Pattern (Formatter lg) = pre @ ''%requestId%'' @ post"
  shows "r_requestID v = r
     \<and> bound_Info lg (Some c') msg now frame
         = Inr [substitute pre v @ strings_ReplaceAll r ''%message%'' (r_message v)
                  @ substitute post v @ [CHR 0x0A]]
     \<and> (\<not> sublist ''%message%'' r \<longrightarrow>
          bound_Info lg (Some c') msg now frame
            = Inr [substitute pre v @ r @ substitute post v @ [CHR 0x0A]])
     \<and> r_requestID u = ''unknown''
     \<and> unbound_Info lg msg now frame
         = Inr [substitute pre u @ ''unknown'' @ substitute post u @ [CHR 0x0A]]"
proof -
  have c': "c' = WithValue c requestIDKey (AStr r)"
    using assms(1) by (simp add: InjectRequestID_Some)
  have rv: "r_requestID v = r"
    using values_of_requestID [OF assms(2)] by (simp add: requestID_of_emitted)
  have ru: "r_requestID u = ''unknown''"
    using values_of_requestID [OF assms(3)] by (simp add: requestID_of_emitted)
  have sv: "substitute (Pattern (Formatter lg)) v
              = substitute pre v @ strings_ReplaceAll r ''%message%'' (r_message v)
                  @ substitute post v"
    by (simp only: assms(6) substitute_framed [OF assms(5)] substitute_requestId rv)
  have "substitute ''%requestId%'' u = ''unknown''"
    by (simp add: substitute_requestId ru)
  hence su: "substitute (Pattern (Formatter lg)) u
              = substitute pre u @ ''unknown'' @ substitute post u"
    by (simp only: assms(6) substitute_framed [OF assms(5)])
  have b: "bound_Info lg (Some c') msg now frame
             = Inr [substitute pre v @ strings_ReplaceAll r ''%message%'' (r_message v)
                      @ substitute post v @ [CHR 0x0A]]"
    by (simp add: bound_Info_def c' WithContext_injected
          Entry_Info_enabled [OF assms(4) assms(2)] sv)
  have n: "unbound_Info lg msg now frame
             = Inr [substitute pre u @ ''unknown'' @ substitute post u @ [CHR 0x0A]]"
    by (simp add: unbound_Info_def Entry_Info_enabled [OF assms(4) assms(3)] su)
  show ?thesis
    using rv ru b n by (simp add: ReplaceAll_absent)
qed

lemma info_logger_sel:
  "Pattern (Formatter (info_logger p)) = p"
  "logrus_rank logrus_InfoLevel \<le> logrus_rank (LoggerLevel (info_logger p))"
  by (simp_all add: info_logger_def default_formatter_def)

lemma scenario_pattern:
  "Pattern (Formatter (info_logger ''%timestamp% | %level% | %requestId% | %message%''))
     = ''%timestamp% | %level% | '' @ ''%requestId%'' @ '' | %message%''"
  by (simp add: info_logger_sel)

lemma requestId_rendering_scenario:
  "bound_Info (info_logger ''%timestamp% | %level% | %requestId% | %message%'')
       (Some (WithValue Background requestIDKey (AStr ''req-42''))) ''hello world''
       fixed_clock (Some some_frame)
     = Inr [''2026-11-01 10:00:00 | INFO | req-42 | hello world'' @ [CHR 0x0A]]
   \<and> unbound_Info (info_logger ''%timestamp% | %level% | %requestId% | %message%'')
       ''hello world'' fixed_clock (Some some_frame)
     = Inr [''2026-11-01 10:00:00 | INFO | unknown | hello world'' @ [CHR 0x0A]]"
  using requestId_rendering_with_hooks [OF InjectRequestID_Some [of Background "''req-42''"]
      values_of_info_logger [of _ "[''requestId'' \<mapsto> AStr ''req-42'']" "''hello world''"]
      values_of_info_logger [of _ Map.empty "''hello world''"]
      info_logger_sel(2) framed_examples(4) scenario_pattern]
  by (simp add: substitute_unfold sublist_Cons_right)


lemma log_Println_eq: "log_Println header s = header @ s @ [CHR 0x0A]"
  by (simp add: log_Println_def log_Output_def)

lemma Init_sel:
  "ReportCaller (fst (Init loaded ParseLevel mf)) = True"
  "FunctionNameFormatter (Formatter (fst (Init loaded ParseLevel mf))) = None"
  by (simp_all add: Init_def Let_def)

lemma Init_caller_panic:
  "caller_of (Formatter (fst (Init loaded ParseLevel mf)))
       (emitted_entry (fst (Init loaded ParseLevel mf)) flds level msg now (Some frame))
     = Inl NilPointerDereference"
  by (simp add: caller_of_def emitted_entry_def Init_sel)

lemma Init_values_panic:
  "values_of (Formatter (fst (Init loaded ParseLevel mf)))
       (emitted_entry (fst (Init loaded ParseLevel mf)) flds level msg now (Some frame))
     = Inl NilPointerDereference"
  by (simp add: values_of_def Init_caller_panic Let_def split: option.splits)

lemma Init_default_level:
  "LoggerLevel (fst (Init (Inl err) logrus_ParseLevel mf)) = logrus_InfoLevel"
  by (simp add: Init_def Let_def logrus_ParseLevel_def strings_ToLower_def lower_byte_def)

text \<open>
  Claim C4 does not hold of the code.  \<^verbatim>\<open>Init\<close> turns caller reporting on and sets no
  function-name hook, and \<^verbatim>\<open>Format\<close> calls that hook for every entry with a caller.  So on
  the logger that \<^verbatim>\<open>Init\<close> configures, whatever the configuration and the registered
  message formatter, \<^verbatim>\<open>WithContext(ctx).Info(msg)\<close> with an injected ID and \<^verbatim>\<open>Log.Info(msg)\<close>
  panic as soon as level info is enabled and a caller frame is found (and write nothing
  otherwise): with the default configuration, \<^verbatim>\<open>Info("x")\<close> bound to the ID \<^verbatim>\<open>req-42\<close>
  panics instead of rendering the ID.
\<close>

theorem C4_init_logger_panics:
  "bound_Info (fst (Init loaded ParseLevel mf)) (Some (WithValue c requestIDKey (AStr r)))
       msg now (Some frame)
     = (if logrus_rank logrus_InfoLevel
             \<le> logrus_rank (LoggerLevel (fst (Init loaded ParseLevel mf)))
        then Inl NilPointerDereference else Inr [])
   \<and> unbound_Info (fst (Init loaded ParseLevel mf)) msg now (Some frame)
     = (if logrus_rank logrus_InfoLevel
             \<le> logrus_rank (LoggerLevel (fst (Init loaded ParseLevel mf)))
        then Inl NilPointerDereference else Inr [])
   \<and> InjectRequestID (Some Background) ''req-42''
     = Inr (WithValue Background requestIDKey (AStr ''req-42''))
   \<and> bound_Info
       (fst (Init (Inl ''no log-config.xml'') logrus_ParseLevel
               (Some DefaultMessageFormater_Format)))
       (Some (WithValue Background requestIDKey (AStr ''req-42''))) ''x'' fixed_clock
       (Some some_frame)
     = Inl NilPointerDereference"
  by (simp add: bound_Info_def unbound_Info_def WithContext_injected Entry_Info_def
        Entry_Log_def Format_def Init_values_panic Init_default_level InjectRequestID_Some)

section \<open>Newlines\<close>




section \<open>Contexts\<close>




section \<open>The configured level\<close>

text \<open>
  Claim C8 fails for a level name in another letter case: \<^verbatim>\<open>DEBUG\<close> is none of the four
  strings, and the logger is built with the minimum level Debug, not Info.
\<close>

theorem C8_uppercase_level_counterexample:
  "''DEBUG'' \<notin> {''debug'', ''info'', ''warn'', ''error''}
   \<and> parseLogLevel ''DEBUG'' = DebugLevel
   \<and> NewLogger (Some (DefaultConfig\<lparr>LogLevel := ''DEBUG''\<rparr>))
       = Inr \<lparr>currentLevel = DebugLevel, format = ''text''\<rparr>
   \<and> DebugLevel \<noteq> InfoLevel"
  by (simp add: parseLogLevel_def NewLogger_def DefaultConfig_def strings_ToLower_def
        lower_byte_def DebugLevel_def InfoLevel_def)

text \<open>
  Claim C8, as amended.  A level string that, in lower case, is none of \<^verbatim>\<open>debug\<close>,
  \<^verbatim>\<open>info\<close>, \<^verbatim>\<open>warn\<close>, \<^verbatim>\<open>error\<close> is parsed as Info, and \<^verbatim>\<open>NewLogger\<close> returns a
  logger with that minimum level; \<^verbatim>\<open>Init\<close> sets the level Info for a string that
  \<^verbatim>\<open>logrus.ParseLevel\<close> rejects, and never returns an error.
\<close>

theorem C8_unrecognized_level_defaults:
  assumes "strings_ToLower level \<notin> {''debug'', ''info'', ''warn'', ''error''}"
  shows "parseLogLevel level = InfoLevel
     \<and> NewLogger (Some (cfg\<lparr>LogLevel := level\<rparr>))
         = Inr \<lparr>currentLevel = InfoLevel, format = strings_ToLower (LogFormat cfg)\<rparr>
     \<and> (ParseLevel level = None \<longrightarrow>
          Init (Inr (lc\<lparr>cfg_Level := level\<rparr>)) ParseLevel mf
            = (\<lparr>ReportCaller = True, LoggerLevel = logrus_InfoLevel,
                Formatter = \<lparr>Pattern = cfg_Pattern lc,
                              TimestampFormat = cfg_TimestampFormat lc,
                              MsgFormatter = mf, FunctionNameFormatter = None\<rparr>\<rparr>, None))
     \<and> snd (Init loaded ParseLevel mf) = None"
  using assms
  by (simp add: parseLogLevel_def NewLogger_def Init_def Let_def)

theorem C8_unrecognized_level_defaults_witness:
  "parseLogLevel ''Verbose'' = InfoLevel
   \<and> NewLogger (Some (DefaultConfig\<lparr>LogLevel := ''Verbose''\<rparr>))
       = Inr \<lparr>currentLevel = InfoLevel, format = ''text''\<rparr>
   \<and> LoggerLevel (fst (Init (Inr \<lparr>cfg_TimestampFormat = ''15:04'', cfg_Pattern = ''%message%'',
                                    cfg_Level = ''Verbose''\<rparr>)
                          logrus_ParseLevel (Some DefaultMessageFormater_Format)))
       = logrus_InfoLevel"
  using C8_unrecognized_level_defaults [of "''Verbose''" DefaultConfig logrus_ParseLevel
      "\<lparr>cfg_TimestampFormat = ''15:04'', cfg_Pattern = ''%message%'', cfg_Level = ''info''\<rparr>"
      "Some DefaultMessageFormater_Format"]
  by (simp add: logrus_ParseLevel_def strings_ToLower_def lower_byte_def DefaultConfig_def)

section \<open>The level gate and the nil context\<close>

lemma shouldLog_severity:
  "shouldLog (l\<lparr>currentLevel := LogLevel_of M\<rparr>) (LogLevel_of S) = at_least S M"
  by (cases S; cases M)
     (simp_all add: shouldLog_def at_least_def DebugLevel_def InfoLevel_def WarnLevel_def
        ErrorLevel_def)

lemma StdLogger_log_nil:
  "StdLogger_log l level levelStr msg None args env
     = (if shouldLog l level then Inl NilPointerDereference else Inr [])"
  by (simp add: StdLogger_log_def Let_def)

lemma StdLogger_call_levelStr:
  "StdLogger_call S l msg args env
     = StdLogger_log l (LogLevel_of S) (levelStr_of S) msg None args env"
  by (cases S)
     (simp_all add: StdLogger_Debug_def StdLogger_Info_def StdLogger_Warn_def StdLogger_Error_def)

lemma StdLoggerWithContext_call_levelStr:
  "StdLoggerWithContext_call S \<lparr>embedded = l, ctx = Some c\<rparr> msg args env
     = StdLogger_log l (LogLevel_of S) (levelStr_of S) msg (Some c) args env"
  by (cases S)
     (simp_all add: StdLoggerWithContext_Debug_def StdLoggerWithContext_Info_def
        StdLoggerWithContext_Warn_def StdLoggerWithContext_Error_def
        StdLoggerWithContext_log_def)

lemma log_Output_text:
  "log_Output header (pre @ '' | '' @ formatted)
     = header @ pre @ '' | '' @ formatted
         @ (if formatted \<noteq> [] \<and> last formatted = CHR 0x0A then [] else [CHR 0x0A])"
  by (simp add: log_Output_def)

text \<open>
  Claim C1 does not hold of the code on the plain logger.  For all severities \<open>S\<close> and
  \<open>M\<close>, in the order \<open>Debug < Info < Warn < Error\<close>, \<^verbatim>\<open>shouldLog\<close> of a logger with
  minimum \<open>M\<close> is true at \<open>S\<close> exactly when \<open>S\<close> is at least \<open>M\<close>, and a call below the
  minimum returns without output.  A call at or above the minimum on a logger bound to a
  context writes exactly one output: in the JSON format the prefix, the serialised object
  and a newline, in the text format the prefix, the level in upper case in brackets, time,
  file, function, line, request ID and the formatted message, closed by a newline.  But
  the same call on a plain logger, which passes the nil context, panics and writes
  nothing: a logger built with the level \<^verbatim>\<open>warn\<close> panics on \<^verbatim>\<open>Error("boom")\<close>.
\<close>

theorem C1_gate_then_nil_context:
  "shouldLog (l\<lparr>currentLevel := LogLevel_of M\<rparr>) (LogLevel_of S) = at_least S M
   \<and> StdLogger_call S (l\<lparr>currentLevel := LogLevel_of M\<rparr>) msg args env
       = (if at_least S M then Inl NilPointerDereference else Inr [])
   \<and> StdLoggerWithContext_call S
         \<lparr>embedded = l\<lparr>currentLevel := LogLevel_of M\<rparr>, ctx = Some c\<rparr> msg args env
       = (if \<not> at_least S M then Inr []
          else if format l = ''json''
          then Inr [log_header env
                    @ (case json_Marshal env
                              (log_entry (levelStr_of S) (sprintf env msg args) (caller_file env)
                                 (case caller_func env of None \<Rightarrow> ''unknown'' | Some n \<Rightarrow> n)
                                 (caller_line env) (Context_Value c RequestIDKey) env) of
                         None \<Rightarrow> []
                       | Some j \<Rightarrow> j)
                    @ [CHR 0x0A]]
          else Inr [log_header env
                    @ ''['' @ strings_ToUpper (levelStr_of S) @ ''] '' @ now_RFC3339 env
                    @ '' | file='' @ caller_file env
                    @ '', function='' @ (case caller_func env of None \<Rightarrow> ''unknown'' | Some n \<Rightarrow> n)
                    @ '', line='' @ strconv_Itoa (caller_line env)
                    @ '', requestID='' @ fmt_Sprint (Context_Value c RequestIDKey)
                    @ '' | '' @ sprintf env msg args
                    @ (if sprintf env msg args \<noteq> [] \<and> last (sprintf env msg args) = CHR 0x0A
                       then [] else [CHR 0x0A])])
   \<and> NewLogger (Some (DefaultConfig\<lparr>LogLevel := ''warn''\<rparr>))
       = Inr \<lparr>currentLevel = WarnLevel, format = ''text''\<rparr>
   \<and> StdLogger_Error \<lparr>currentLevel = WarnLevel, format = ''text''\<rparr> ''boom'' [] some_env
       = Inl NilPointerDereference
   \<and> StdLogger_Info \<lparr>currentLevel = WarnLevel, format = ''text''\<rparr> ''boom'' [] some_env
       = Inr []"
proof (intro conjI)
  show "shouldLog (l\<lparr>currentLevel := LogLevel_of M\<rparr>) (LogLevel_of S) = at_least S M"
    by (rule shouldLog_severity)
next
  show "StdLogger_call S (l\<lparr>currentLevel := LogLevel_of M\<rparr>) msg args env
          = (if at_least S M then Inl NilPointerDereference else Inr [])"
    by (simp add: StdLogger_call_levelStr StdLogger_log_nil shouldLog_severity)
next
  have g: "shouldLog (l\<lparr>currentLevel := LogLevel_of M\<rparr>) (LogLevel_of S) = at_least S M"
    by (rule shouldLog_severity)
  have t: "log_Output (log_header env)
             ((''['' @ strings_ToUpper (levelStr_of S) @ ''] '' @ now_RFC3339 env
               @ '' | file='' @ caller_file env
               @ '', function='' @ (case caller_func env of None \<Rightarrow> ''unknown'' | Some n \<Rightarrow> n)
               @ '', line='' @ strconv_Itoa (caller_line env)
               @ '', requestID='' @ fmt_Sprint (Context_Value c RequestIDKey))
              @ '' | '' @ sprintf env msg args)
           = log_header env
               @ (''['' @ strings_ToUpper (levelStr_of S) @ ''] '' @ now_RFC3339 env
                  @ '' | file='' @ caller_file env
                  @ '', function='' @ (case caller_func env of None \<Rightarrow> ''unknown'' | Some n \<Rightarrow> n)
                  @ '', line='' @ strconv_Itoa (caller_line env)
                  @ '', requestID='' @ fmt_Sprint (Context_Value c RequestIDKey))
               @ '' | '' @ sprintf env msg args
               @ (if sprintf env msg args \<noteq> [] \<and> last (sprintf env msg args) = CHR 0x0A
                  then [] else [CHR 0x0A])"
    by (rule log_Output_text)
  show "StdLoggerWithContext_call S
          \<lparr>embedded = l\<lparr>currentLevel := LogLevel_of M\<rparr>, ctx = Some c\<rparr> msg args env
        = (if \<not> at_least S M then Inr []
           else if format l = ''json''
           then Inr [log_header env
                     @ (case json_Marshal env
                               (log_entry (levelStr_of S) (sprintf env msg args) (caller_file env)
                                  (case caller_func env of None \<Rightarrow> ''unknown'' | Some n \<Rightarrow> n)
                                  (caller_line env) (Context_Value c RequestIDKey) env) of
                          None \<Rightarrow> []
                        | Some j \<Rightarrow> j)
                     @ [CHR 0x0A]]
           else Inr [log_header env
                     @ ''['' @ strings_ToUpper (levelStr_of S) @ ''] '' @ now_RFC3339 env
                     @ '' | file='' @ caller_file env
                     @ '', function='' @ (case caller_func env of None \<Rightarrow> ''unknown'' | Some n \<Rightarrow> n)
                     @ '', line='' @ strconv_Itoa (caller_line env)
                     @ '', requestID='' @ fmt_Sprint (Context_Value c RequestIDKey)
                     @ '' | '' @ sprintf env msg args
                     @ (if sprintf env msg args \<noteq> [] \<and> last (sprintf env msg args) = CHR 0x0A
                        then [] else [CHR 0x0A])])"
    using t
    by (simp add: StdLoggerWithContext_call_levelStr StdLogger_log_def g Let_def log_Println_eq)
next
  show "NewLogger (Some (DefaultConfig\<lparr>LogLevel := ''warn''\<rparr>))
          = Inr \<lparr>currentLevel = WarnLevel, format = ''text''\<rparr>"
    by (simp add: NewLogger_def DefaultConfig_def parseLogLevel_def strings_ToLower_def
          lower_byte_def DebugLevel_def InfoLevel_def WarnLevel_def)
next
  show "StdLogger_Error \<lparr>currentLevel = WarnLevel, format = ''text''\<rparr> ''boom'' [] some_env
          = Inl NilPointerDereference"
    by (simp add: StdLogger_Error_def StdLogger_log_nil shouldLog_def WarnLevel_def ErrorLevel_def)
next
  show "StdLogger_Info \<lparr>currentLevel = WarnLevel, format = ''text''\<rparr> ''boom'' [] some_env
          = Inr []"
    by (simp add: StdLogger_Info_def StdLogger_log_nil shouldLog_def WarnLevel_def InfoLevel_def)
qed

text \<open>
  Claim C2 does not hold of the code.  The default logger has the minimum level Info, and
  \<^verbatim>\<open>Info("x")\<close> on it passes the nil context to \<^verbatim>\<open>log\<close>, which calls \<^verbatim>\<open>ctx.Value\<close>:
  the call panics.  The same call on the logger bound to the background context, whose
  \<^verbatim>\<open>log\<close> replaces a nil context by the bound one, writes its line.
\<close>

theorem C2_plain_logger_panics:
  "DefaultLogger = Inr \<lparr>currentLevel = InfoLevel, format = ''text''\<rparr>
   \<and> StdLogger_Info \<lparr>currentLevel = InfoLevel, format = ''text''\<rparr> ''x'' [] some_env
       = Inl NilPointerDereference
   \<and> StdLoggerWithContext_Info
         (StdLogger_WithContext \<lparr>currentLevel = InfoLevel, format = ''text''\<rparr> (Some Background))
         ''x'' [] some_env
       = Inr [''2026/11/01 10:00:00 Logger.go:148: [INFO] 2026-11-01T10:00:00Z | file=/app/cmd/main.go, function=main.someFunc, line=25, requestID=<nil> | x'' @ [CHR 0x0A]]"
  by (simp add: DefaultLogger_def NewLogger_def DefaultConfig_def parseLogLevel_def
        strings_ToLower_def lower_byte_def StdLogger_Info_def StdLogger_log_nil shouldLog_def
        StdLoggerWithContext_Info_def StdLogger_WithContext_def StdLoggerWithContext_log_def
        StdLogger_log_def Let_def some_env_def plain_sprintf_def Itoa_25 RequestIDKey_def
        log_Output_def strings_ToUpper_def upper_byte_def)

end
